theory Spec2Isabelle
  imports Complex_Main "HOL-Library.Multiset"
begin

section \<open>Python string primitives used by the recommender\<close>

text \<open>
  A Python \<open>str\<close> is modelled as a \<^typ>\<open>string\<close> whose characters are the code points
  0 to 255. \<open>py_isspace\<close> is \<open>str.isspace\<close> on one character, which is also the class
  \<open>\s\<close> of \<open>re\<close> on \<open>str\<close> patterns and the set \<open>str.strip()\<close> removes: tab to carriage
  return, the separators 28 to 31, the space, NEL (133) and the no-break space (160).
\<close>

definition py_isspace :: "char \<Rightarrow> bool" where
  "py_isspace c = (let n = (of_char c :: nat)
     in (9 \<le> n \<and> n \<le> 13) \<or> (28 \<le> n \<and> n \<le> 32) \<or> n = 133 \<or> n = 160)"

definition is_az :: "char \<Rightarrow> bool" where
  "is_az c = (let n = (of_char c :: nat) in 97 \<le> n \<and> n \<le> 122)"

text \<open>\<open>str.lower\<close>: the letters A to Z and the upper-case letters 192 to 222 (without the
  multiplication sign 215) move up by 32; every other character stays.\<close>

definition py_lower_char :: "char \<Rightarrow> char" where
  "py_lower_char c = (let n = (of_char c :: nat)
     in if (65 \<le> n \<and> n \<le> 90) \<or> (192 \<le> n \<and> n \<le> 222 \<and> n \<noteq> 215)
        then char_of (n + 32) else c)"

definition py_lower :: "string \<Rightarrow> string" where
  "py_lower s = map py_lower_char s"

text \<open>\<open>re.sub(r'\s+', ' ', s)\<close>: every maximal run of whitespace becomes one space. The flag
  says that the scan is inside a run whose space has been written already.\<close>

fun sub_ws :: "bool \<Rightarrow> string \<Rightarrow> string" where
  "sub_ws in_run [] = []"
| "sub_ws in_run (c # cs) =
     (if py_isspace c then (if in_run then sub_ws True cs else CHR '' '' # sub_ws True cs)
      else c # sub_ws False cs)"

definition py_strip :: "string \<Rightarrow> string" where
  "py_strip s = rev (dropWhile py_isspace (rev (dropWhile py_isspace s)))"

text \<open>\<open>clean_ingredient\<close>, lines 47 to 51: lower, delete what is neither a to z nor
  whitespace, collapse whitespace runs, strip.\<close>

definition clean_ingredient :: "string \<Rightarrow> string" where
  "clean_ingredient ing =
     (let ing1 = py_lower ing;
          ing2 = filter (\<lambda>c. is_az c \<or> py_isspace c) ing1;
          ing3 = sub_ws False ing2
      in py_strip ing3)"

text \<open>\<open>word in ing\<close> on two strings: \<open>word\<close> occurs in \<open>ing\<close> as a contiguous substring.\<close>

fun py_in_str :: "string \<Rightarrow> string \<Rightarrow> bool" where
  "py_in_str word [] = (word = [])"
| "py_in_str word (c # s) = (take (length word) (c # s) = word \<or> py_in_str word s)"

text \<open>\<open>sep.join(parts)\<close> and \<open>s.split(sep)\<close> for a one-character separator.\<close>

fun py_join :: "string \<Rightarrow> string list \<Rightarrow> string" where
  "py_join sep [] = []"
| "py_join sep [x] = x"
| "py_join sep (x # y # ys) = x @ sep @ py_join sep (y # ys)"

fun py_split :: "char \<Rightarrow> string \<Rightarrow> string list" where
  "py_split sep [] = [[]]"
| "py_split sep (c # cs) =
     (if c = sep then [] # py_split sep cs
      else (case py_split sep cs of [] \<Rightarrow> [[c]] | w # ws \<Rightarrow> (c # w) # ws))"

text \<open>\<open>str(n)\<close> for an integer, as the f-string of the display name formats the id.\<close>

fun digits :: "nat \<Rightarrow> string" where
  "digits n = (if n < 10 then [''0123456789'' ! n]
               else digits (n div 10) @ [''0123456789'' ! (n mod 10)])"

declare digits.simps [simp del]

definition str_int :: "int \<Rightarrow> string" where
  "str_int i = (if i < 0 then CHR ''-'' # digits (nat (- i)) else digits (nat i))"

section \<open>Data model\<close>

text \<open>One row of the recipe dataframe: the three fields of a record of \<open>train.json\<close> and
  the \<open>ingredient_text\<close> column that \<open>load_data\<close> adds.\<close>

record row =
  recipe_id :: int
  cuisine :: string
  ingredients :: "string list"
  ingredient_text :: string

text \<open>The dataframe: its rows in corpus order and the \<open>score\<close> column, absent until
  \<open>smart_suggest\<close> assigns it.\<close>

record dataframe =
  rows :: "row list"
  score :: "real list option"

text \<open>What \<open>load_data\<close> returns and \<open>smart_suggest\<close> receives by reference.\<close>

record ('v, 'm) corpus =
  df :: dataframe
  tfidf_matrix :: 'm
  vectorizer :: 'v

record result =
  Name :: string
  Cuisine :: string
  Matched :: "string list"
  Unmatched :: "string list"
  Score :: real

datatype py_error = ValueError | KeyError

text \<open>
  The calls into scikit-learn, pandas and the Python runtime whose code is outside the
  repository are parameters of the model: \<open>fit_transform\<close> of a fresh \<open>TfidfVectorizer\<close>
  (which may raise, as it does with \<open>ValueError\<close> on an empty vocabulary),
  \<open>vectorizer.transform\<close>, \<open>cosine_similarity(...).flatten()\<close>,
  \<open>sort_values(by="score", ascending=False)\<close> on rows that carry their score,
  \<open>round(x, 3)\<close> on a float and \<open>str.title\<close>. A score is read as the real number the float
  denotes.
\<close>

record ('v, 'q, 'm) backend =
  fit_transform :: "string list \<Rightarrow> py_error + 'm \<times> 'v"
  transform :: "'v \<Rightarrow> string \<Rightarrow> 'q"
  cosine_similarity :: "'q \<Rightarrow> 'm \<Rightarrow> real list"
  sort_values :: "(row \<times> real) list \<Rightarrow> (row \<times> real) list"
  round3 :: "real \<Rightarrow> real"
  title :: "string \<Rightarrow> string"

section \<open>The recommender\<close>

text \<open>\<open>is_veg_recipe\<close>, lines 54 and 55.\<close>

definition is_veg_recipe :: "string list \<Rightarrow> string list \<Rightarrow> bool" where
  "is_veg_recipe ings keywords =
     (\<not> list_ex (\<lambda>ing. list_ex (\<lambda>word. py_in_str word ing) keywords) ings)"

definition non_veg_keywords :: "string list" where
  "non_veg_keywords = [''chicken'', ''fish'', ''mutton'', ''beef'', ''egg'', ''bacon'',
     ''meat'', ''pork'', ''shrimp'', ''lamb'']"

text \<open>\<open>DataFrame.head(n)\<close>: the first \<open>n\<close> rows, and for a negative \<open>n\<close> all rows except
  the last \<open>-n\<close>.\<close>

definition head :: "int \<Rightarrow> 'a list \<Rightarrow> 'a list" where
  "head n xs = (if 0 \<le> n then take (nat n) xs else take (length xs - nat (- n)) xs)"

text \<open>
  A frame after a selection. \<open>df_filtered[mask]\<close> keeps the rows where the mask holds when
  the mask is a Boolean series. \<open>Series.apply\<close> on a series without rows returns an empty
  series of dtype object, which \<open>DataFrame.__getitem__\<close> does not take for a Boolean mask
  but for a list of column labels: the frame that comes back has no columns, and
  \<open>sort_values(by="score")\<close> raises \<open>KeyError\<close> on it.
\<close>

datatype frame = Frame "(row \<times> real) list" | No_columns

definition count_filter :: "int \<Rightarrow> (row \<times> real) list \<Rightarrow> (row \<times> real) list" where
  "count_filter max_ings scored =
     filter (\<lambda>(r, s). int (length (ingredients r)) \<le> max_ings) scored"

definition veg_filter :: "(row \<times> real) list \<Rightarrow> frame" where
  "veg_filter df_filtered =
     (if df_filtered = [] then No_columns
      else Frame (filter (\<lambda>(r, s). is_veg_recipe (ingredients r) non_veg_keywords) df_filtered))"

text \<open>Lines 64 to 67: the two filters on the scored rows.\<close>

definition filter_rows :: "int \<Rightarrow> bool \<Rightarrow> (row \<times> real) list \<Rightarrow> frame" where
  "filter_rows max_ings is_veg scored =
     (let df_filtered = count_filter max_ings scored
      in if is_veg then veg_filter df_filtered else Frame df_filtered)"

text \<open>Lines 75 to 85: the result built for one retained row.\<close>

definition compose :: "('v, 'q, 'm) backend \<Rightarrow> string list \<Rightarrow> row \<times> real \<Rightarrow> result" where
  "compose B user_cleaned rs =
     (let recipe_ings = map clean_ingredient (ingredients (fst rs));
          matched = filter (\<lambda>i. i \<in> set recipe_ings) user_cleaned;
          unmatched = filter (\<lambda>i. i \<notin> set matched) recipe_ings
      in \<lparr> Name = title B (cuisine (fst rs)) @ '' Dish #'' @ str_int (recipe_id (fst rs)),
           Cuisine = title B (cuisine (fst rs)),
           Matched = matched,
           Unmatched = unmatched,
           Score = round3 B (snd rs) \<rparr>)"

text \<open>
  \<open>smart_suggest\<close>, lines 58 to 87; \<open>query_scores\<close> is its lines 59 to 61. The function
  returns the corpus as the call leaves it together with its outcome. Assigning a column
  of the wrong length raises \<open>ValueError\<close> and leaves the dataframe as it was.
\<close>

definition query_scores ::
  "('v, 'q, 'm) backend \<Rightarrow> ('v, 'm) corpus \<Rightarrow> string list \<Rightarrow> real list" where
  "query_scores B c user_ingredients =
     (let user_input = py_join '' '' (map clean_ingredient user_ingredients);
          user_vec = transform B (vectorizer c) user_input
      in cosine_similarity B user_vec (tfidf_matrix c))"

text \<open>The query vector of lines 59 and 60, which \<open>query_scores\<close> hands to
  \<open>cosine_similarity\<close>.\<close>

definition query_vector :: "('v, 'q, 'm) backend \<Rightarrow> ('v, 'm) corpus \<Rightarrow> string list \<Rightarrow> 'q" where
  "query_vector B c user_ingredients =
     transform B (vectorizer c) (py_join '' '' (map clean_ingredient user_ingredients))"

definition smart_suggest ::
  "('v, 'q, 'm) backend \<Rightarrow> string list \<Rightarrow> ('v, 'm) corpus \<Rightarrow> int \<Rightarrow> bool \<Rightarrow> int
     \<Rightarrow> ('v, 'm) corpus \<times> (py_error + result list)" where
  "smart_suggest B user_ingredients c top_n is_veg max_ings =
     (let cosine_similarities = query_scores B c user_ingredients
      in if length cosine_similarities \<noteq> length (rows (df c)) then (c, Inl ValueError)
         else
           (let c' = c\<lparr>df := (df c)\<lparr>score := Some cosine_similarities\<rparr>\<rparr>;
                scored = zip (rows (df c)) cosine_similarities
            in case filter_rows max_ings is_veg scored of
                 No_columns \<Rightarrow> (c', Inl KeyError)
               | Frame df_filtered \<Rightarrow>
                   (let top_recipes = head top_n (sort_values B df_filtered);
                        user_cleaned = map clean_ingredient user_ingredients
                    in (c', Inr (map (compose B user_cleaned) top_recipes)))))"

text \<open>
  \<open>load_data\<close>, lines 91 to 98, from the parsed records of \<open>train.json\<close>. A dataframe
  built from no record has no column, so line 95 raises \<open>KeyError\<close> on \<open>df['ingredients']\<close>;
  an error of \<open>fit_transform\<close> is passed on.
\<close>

definition load_data ::
  "('v, 'q, 'm) backend \<Rightarrow> (int \<times> string \<times> string list) list
     \<Rightarrow> py_error + ('v, 'm) corpus" where
  "load_data B data =
     (if data = [] then Inl KeyError
      else
        (let rs = map (\<lambda>(i, cu, x). \<lparr> recipe_id = i, cuisine = cu, ingredients = x,
                    ingredient_text = py_join '' '' (map clean_ingredient x) \<rparr>) data
         in case fit_transform B (map ingredient_text rs) of
              Inl e \<Rightarrow> Inl e
            | Inr mv \<Rightarrow> Inr \<lparr> df = \<lparr> rows = rs, score = None \<rparr>,
                             tfidf_matrix = fst mv, vectorizer = snd mv \<rparr>))"

text \<open>The handler of the button "Suggest Recipes", lines 115 to 141: what it shows. The
  corpus is loaded (line 116) before the input is looked at.\<close>

datatype shown = Recipes "result list" | Warning_no_match | Error_no_ingredient

definition suggest_recipes ::
  "('v, 'q, 'm) backend \<Rightarrow> (int \<times> string \<times> string list) list \<Rightarrow> string \<Rightarrow> string \<Rightarrow> int
     \<Rightarrow> py_error + shown" where
  "suggest_recipes B data user_input is_veg_choice max_ings =
     (case load_data B data of
        Inl e \<Rightarrow> Inl e
      | Inr c \<Rightarrow>
          (let user_ingredients =
                 map py_strip (filter (\<lambda>i. py_strip i \<noteq> []) (py_split CHR '','' user_input))
           in if user_ingredients \<noteq> [] then
                (case snd (smart_suggest B user_ingredients c 5 (is_veg_choice = ''Yes'') max_ings) of
                   Inl e \<Rightarrow> Inl e
                 | Inr results \<Rightarrow>
                     Inr (if results \<noteq> [] then Recipes results else Warning_no_match))
              else Inr Error_no_ingredient))"

section \<open>The matched list as the specification words it\<close>

text \<open>The specification's "matched": the recipe's normalized ingredients that are in the
  user's normalized list, in the recipe's order. It is compared with the \<open>Matched\<close> field
  that \<open>compose\<close> computes.\<close>

definition matched_in_recipe_order :: "string list \<Rightarrow> string list \<Rightarrow> string list" where
  "matched_in_recipe_order user_cleaned recipe_ings =
     filter (\<lambda>i. i \<in> set user_cleaned) recipe_ings"

section \<open>A fixture backend for concrete runs\<close>

text \<open>
  The fixture is a test double, not the libraries: it only makes the model run on small
  corpora. Fitting raises \<open>ValueError\<close> when no document has a word of two letters (the
  empty vocabulary); otherwise the matrix is the list of scores a non-blank query gets,
  1 on every row, and a blank query scores 0 on every row. The sort is a stable insertion
  sort by descending score, rounding is to the nearest thousandth, and \<open>title\<close> is
  \<open>str.title\<close> on ASCII text. The names, cuisines and ingredient lists it yields are the
  program's; the scores and the order they induce are the fixture's own. In the
  closed statements that show a claim failing, the scores stated are also those of the
  specification's cosine similarity: 0 for a query that is blank after cleaning, and 1
  on a row whose document has exactly the query's tokens.
\<close>

fun insert_desc :: "row \<times> real \<Rightarrow> (row \<times> real) list \<Rightarrow> (row \<times> real) list" where
  "insert_desc x [] = [x]"
| "insert_desc x (y # ys) = (if snd y \<le> snd x then x # y # ys else y # insert_desc x ys)"

definition sort_desc :: "(row \<times> real) list \<Rightarrow> (row \<times> real) list" where
  "sort_desc xs = foldr insert_desc xs []"

definition is_AZ :: "char \<Rightarrow> bool" where
  "is_AZ c = (let n = (of_char c :: nat) in 65 \<le> n \<and> n \<le> 90)"

definition ascii_upper_char :: "char \<Rightarrow> char" where
  "ascii_upper_char c = (if is_az c then char_of ((of_char c :: nat) - 32) else c)"

fun ascii_title :: "bool \<Rightarrow> string \<Rightarrow> string" where
  "ascii_title prev_cased [] = []"
| "ascii_title prev_cased (c # cs) =
     (if is_az c \<or> is_AZ c
      then (if prev_cased then py_lower_char c else ascii_upper_char c) # ascii_title True cs
      else c # ascii_title False cs)"

definition fixture :: "(unit, bool, real list) backend" where
  "fixture = \<lparr> fit_transform = (\<lambda>docs.
                 if list_ex (\<lambda>d. list_ex (\<lambda>w. 2 \<le> length w) (py_split CHR '' '' d)) docs
                 then Inr (map (\<lambda>d. 1) docs, ()) else Inl ValueError),
               transform = (\<lambda>v s. list_ex (\<lambda>ch. \<not> py_isspace ch) s),
               cosine_similarity = (\<lambda>q m. if q then m else map (\<lambda>x. 0) m),
               sort_values = sort_desc,
               round3 = (\<lambda>x. of_int (round (x * 1000)) / 1000),
               title = ascii_title False \<rparr>"

text \<open>Two small corpora: the one-recipe corpus of the specification's first end-to-end
  scenario, and three recipes of which the second has no ingredient.\<close>

definition pantry :: "(int \<times> string \<times> string list) list" where
  "pantry = [(1, ''italian'', [''milk'', ''egg'', ''flour''])]"

definition trio :: "(int \<times> string \<times> string list) list" where
  "trio = [(1, ''thai'', [''rice'']), (2, ''greek'', []), (3, ''irish'', [''oats'', ''milk''])]"

text \<open>What \<open>load_data\<close> returns for them with the fixture.\<close>

definition pantry_corpus :: "(unit, real list) corpus" where
  "pantry_corpus =
     \<lparr> df = \<lparr> rows = [\<lparr> recipe_id = 1, cuisine = ''italian'',
                          ingredients = [''milk'', ''egg'', ''flour''],
                          ingredient_text = ''milk egg flour'' \<rparr>],
              score = None \<rparr>,
       tfidf_matrix = [1], vectorizer = () \<rparr>"

definition trio_corpus :: "(unit, real list) corpus" where
  "trio_corpus =
     \<lparr> df = \<lparr> rows = [\<lparr> recipe_id = 1, cuisine = ''thai'', ingredients = [''rice''],
                          ingredient_text = ''rice'' \<rparr>,
                        \<lparr> recipe_id = 2, cuisine = ''greek'', ingredients = [],
                          ingredient_text = [] \<rparr>,
                        \<lparr> recipe_id = 3, cuisine = ''irish'', ingredients = [''oats'', ''milk''],
                          ingredient_text = ''oats milk'' \<rparr>],
              score = None \<rparr>,
       tfidf_matrix = [1, 1, 1], vectorizer = () \<rparr>"

section \<open>The vector space of the specification\<close>

text \<open>  The program takes its vectors and scores from scikit-learn, whose code is not in the
  repository. The definitions of this section follow sections 4.2 and 4.3 of the
  specification instead; vectors are lists of real numbers, one entry per vocabulary
  column. They describe the real numbers the formulas denote: the program evaluates the
  same formulas in double precision, where rounding can move a score by an ulp.\<close>

text \<open>Modelled from the spec: the dot product of section 4.3, of which the program
  only has the library call \<open>cosine_similarity\<close>.\<close>

fun dot :: "real list \<Rightarrow> real list \<Rightarrow> real" where
  "dot (a # u) (b # v) = a * b + dot u v"
| "dot u v = 0"

text \<open>Modelled from the spec: the Euclidean norm of section 4.3, missing
  from the source with the rest of \<open>cosine_similarity\<close>.\<close>

definition euclid_norm :: "real list \<Rightarrow> real" where
  "euclid_norm v = sqrt (dot v v)"

text \<open>Modelled from the spec: the all-zero vector of section 4.3, for which the
  similarity is defined as 0.\<close>

definition all_zero :: "real list \<Rightarrow> bool" where
  "all_zero v = list_all (\<lambda>a. a = 0) v"

text \<open>Modelled from the spec: the cosine similarity of section 4.3, the dot product
  divided by the product of the two Euclidean norms, and 0 if either vector is all-zero;
  the program's \<open>cosine_similarity\<close> is library code.\<close>

definition cosine :: "real list \<Rightarrow> real list \<Rightarrow> real" where
  "cosine u v = (if all_zero u \<or> all_zero v then 0
                 else dot u v / (euclid_norm u * euclid_norm v))"

text \<open>Modelled from the spec: the ranker of section 4.3, one similarity per row of the
  matrix, in the order of the rows; it stands for \<open>cosine_similarity(user_vec,
  tfidf_matrix).flatten()\<close>.\<close>

definition rank :: "real list \<Rightarrow> real list list \<Rightarrow> real list" where
  "rank q M = map (cosine q) M"

text \<open>Modelled from the spec: the whitespace-delimited tokens of a document
  (section 4.2); the tokenizer of \<open>TfidfVectorizer\<close> is library code. Documents and query
  texts are joined by single spaces from cleaned ingredients, so the only whitespace in
  them is the space.\<close>

definition tokens :: "string \<Rightarrow> string list" where
  "tokens d = filter (\<lambda>w. w \<noteq> []) (py_split CHR '' '' d)"

text \<open>Modelled from the spec: the fitted VectorSpace of section 4.2, the
  vocabulary in column order with the inverse-document-frequency weight of each token;
  it stands for the fitted \<open>TfidfVectorizer\<close>.\<close>

record vector_space =
  vocabulary :: "string list"
  idf :: "real list"

text \<open>Modelled from the spec: the normalization to unit Euclidean norm of
  section 4.2; a vector without weight stays as it is.\<close>

definition l2_normalize :: "real list \<Rightarrow> real list" where
  "l2_normalize v = (if all_zero v then v else map (\<lambda>a. a / euclid_norm v) v)"

text \<open>Modelled from the spec: the projection of a document into the fitted
  space (sections 4.2 and 4.3), term frequency times the token's weight, normalized;
  tokens outside the vocabulary contribute nothing. It stands for
  \<open>vectorizer.transform\<close>.\<close>

definition tfidf_transform :: "vector_space \<Rightarrow> string \<Rightarrow> real list" where
  "tfidf_transform vs d =
     l2_normalize (map (\<lambda>(t, w). real (count_list (tokens d) t) * w)
                       (zip (vocabulary vs) (idf vs)))"

text \<open>Modelled from the spec: the fit of section 4.2, the distinct tokens of the
  corpus as vocabulary and a weight that decreases with the number of documents
  containing the token. The specification names the standard scheme without a formula;
  the weight taken is the smoothed \<open>ln ((1 + n) / (1 + df)) + 1\<close> of \<open>TfidfVectorizer\<close>'s
  defaults.\<close>

definition tfidf_fit :: "string list \<Rightarrow> vector_space" where
  "tfidf_fit docs =
     (let vocab = remdups (concat (map tokens docs))
      in \<lparr> vocabulary = vocab,
           idf = map (\<lambda>t. ln ((1 + real (length docs))
                              / (1 + real (length (filter (\<lambda>d. t \<in> set (tokens d)) docs)))) + 1)
                     vocab \<rparr>)"

text \<open>Modelled from the spec: \<open>build\<close> of section 4.2, the fitted space
  and the matrix with one row per document in corpus order; it never fails. It stands
  for \<open>vectorizer.fit_transform\<close>.\<close>

definition tfidf_fit_transform ::
  "string list \<Rightarrow> py_error + real list list \<times> vector_space" where
  "tfidf_fit_transform docs = Inr (map (tfidf_transform (tfidf_fit docs)) docs, tfidf_fit docs)"

text \<open>The backend whose vector space is the one of the specification; sort, rounding
  and title are those of the fixture.\<close>

definition tfidf_backend :: "(vector_space, real list, real list list) backend" where
  "tfidf_backend = \<lparr> fit_transform = tfidf_fit_transform,
                     transform = tfidf_transform,
                     cosine_similarity = rank,
                     sort_values = sort_desc,
                     round3 = (\<lambda>x. of_int (round (x * 1000)) / 1000),
                     title = ascii_title False \<rparr>"

section \<open>Normal form of cleaned ingredients\<close>

definition tidy_char :: "char \<Rightarrow> bool" where
  "tidy_char c = (is_az c \<or> c = CHR '' '')"

definition no_ws_run :: "string \<Rightarrow> bool" where
  "no_ws_run s = successively (\<lambda>a b. \<not> (py_isspace a \<and> py_isspace b)) s"

definition normal_form :: "string \<Rightarrow> bool" where
  "normal_form s = ((\<forall>c\<in>set s. tidy_char c) \<and> no_ws_run s
     \<and> (s = [] \<or> (\<not> py_isspace (hd s) \<and> \<not> py_isspace (last s))))"

section \<open>The normalizer\<close>

lemma py_lower_char_fix: "is_az c \<or> py_isspace c \<Longrightarrow> py_lower_char c = c"
  by (auto simp: is_az_def py_isspace_def py_lower_char_def Let_def)

lemma space_isspace: "py_isspace CHR '' ''"
  by (simp add: py_isspace_def)

lemma sub_ws_chars:
  "\<forall>c\<in>set s. is_az c \<or> py_isspace c \<Longrightarrow> \<forall>c\<in>set (sub_ws b s). tidy_char c"
  by (induction s arbitrary: b) (auto simp: tidy_char_def)

lemma sub_ws_no_run:
  "no_ws_run (sub_ws b s) \<and> (b \<longrightarrow> sub_ws b s = [] \<or> \<not> py_isspace (hd (sub_ws b s)))"
  by (induction s arbitrary: b) (auto simp: no_ws_run_def successively_Cons space_isspace)

lemma sub_ws_fix:
  "\<forall>c\<in>set s. py_isspace c \<longrightarrow> c = CHR '' '' \<Longrightarrow> no_ws_run s
    \<Longrightarrow> (b \<longrightarrow> s = [] \<or> \<not> py_isspace (hd s)) \<Longrightarrow> sub_ws b s = s"
  by (induction s arbitrary: b) (auto simp: no_ws_run_def successively_Cons)

lemma no_ws_run_dropWhile: "no_ws_run s \<Longrightarrow> no_ws_run (dropWhile P s)"
  by (induction s) (auto simp: no_ws_run_def successively_Cons)

lemma no_ws_run_rev: "no_ws_run (rev s) = no_ws_run s"
proof -
  have eq: "(\<lambda>x y. \<not> (py_isspace y \<and> py_isspace x)) = (\<lambda>a b. \<not> (py_isspace a \<and> py_isspace b))"
    by (intro ext) auto
  show ?thesis
    unfolding no_ws_run_def successively_rev eq by (rule refl)
qed

lemma no_ws_run_strip: "no_ws_run s \<Longrightarrow> no_ws_run (py_strip s)"
  by (simp add: py_strip_def no_ws_run_rev no_ws_run_dropWhile)

lemma set_strip: "set (py_strip s) \<subseteq> set s"
proof -
  have "set (py_strip s) \<subseteq> set (dropWhile py_isspace s)"
    unfolding py_strip_def using set_dropWhileD by fastforce
  also have "\<dots> \<subseteq> set s"
    using set_dropWhileD by fastforce
  finally show ?thesis .
qed

lemma strip_ends:
  "py_strip s = [] \<or> (\<not> py_isspace (hd (py_strip s)) \<and> \<not> py_isspace (last (py_strip s)))"
proof (cases "py_strip s = []")
  case True
  then show ?thesis by simp
next
  case False
  define t where "t = dropWhile py_isspace s"
  define u where "u = dropWhile py_isspace (rev t)"
  have ps: "py_strip s = rev u" by (simp add: py_strip_def t_def u_def)
  with False have une: "u \<noteq> []" by simp
  then have hu: "\<not> py_isspace (hd u)" unfolding u_def by (simp add: hd_dropWhile)
  have tne: "t \<noteq> []" using une unfolding u_def by auto
  then have ht: "\<not> py_isspace (hd t)" unfolding t_def by (simp add: hd_dropWhile)
  have "last u = last (rev t)" using une unfolding u_def
    by (metis last_appendR takeWhile_dropWhile_id)
  then have "last u = hd t" using tne by (simp add: last_rev)
  with ht hu une show ?thesis by (simp add: ps hd_rev last_rev)
qed

lemma strip_fix: "s = [] \<or> (\<not> py_isspace (hd s) \<and> \<not> py_isspace (last s)) \<Longrightarrow> py_strip s = s"
proof (cases s)
  case Nil
  then show ?thesis by (simp add: py_strip_def)
next
  case (Cons a as)
  assume "s = [] \<or> (\<not> py_isspace (hd s) \<and> \<not> py_isspace (last s))"
  with Cons have h: "\<not> py_isspace a" and l: "\<not> py_isspace (last s)" by auto
  from h Cons have d1: "dropWhile py_isspace s = s" by simp
  have "rev (butlast s @ [last s]) = last s # rev (butlast s)" by simp
  moreover have "butlast s @ [last s] = s" using Cons by simp
  ultimately have r: "rev s = last s # rev (butlast s)" by simp
  have d2: "dropWhile py_isspace (rev s) = rev s"
    by (subst (1 2) r) (simp add: l)
  show ?thesis by (simp add: py_strip_def d1 d2)
qed

lemma clean_normal_form: "normal_form (clean_ingredient x)"
proof -
  let ?f = "filter (\<lambda>c. is_az c \<or> py_isspace c) (py_lower x)"
  have a: "\<forall>c\<in>set (sub_ws False ?f). tidy_char c"
    by (rule sub_ws_chars) simp
  have b: "no_ws_run (sub_ws False ?f)"
    using sub_ws_no_run by blast
  have c: "clean_ingredient x = py_strip (sub_ws False ?f)"
    by (simp add: clean_ingredient_def)
  show ?thesis
    unfolding normal_form_def c
    using a b set_strip[of "sub_ws False ?f"] no_ws_run_strip strip_ends by blast
qed

lemma az_not_space: "is_az c \<Longrightarrow> \<not> py_isspace c"
  by (auto simp: is_az_def py_isspace_def Let_def)

lemma clean_fix: "normal_form s \<Longrightarrow> clean_ingredient s = s"
proof -
  assume nf: "normal_form s"
  from nf have ch: "\<forall>c\<in>set s. tidy_char c"
    unfolding normal_form_def by (rule conjunct1)
  from nf have nr: "no_ws_run s"
    unfolding normal_form_def by blast
  from nf have ends: "s = [] \<or> (\<not> py_isspace (hd s) \<and> \<not> py_isspace (last s))"
    unfolding normal_form_def by blast
  have keep: "\<forall>c\<in>set s. is_az c \<or> py_isspace c"
  proof
    fix c assume "c \<in> set s"
    with ch have "tidy_char c" by (rule bspec)
    then show "is_az c \<or> py_isspace c"
      unfolding tidy_char_def using space_isspace by blast
  qed
  have "map py_lower_char s = s"
    by (rule map_idI) (use keep py_lower_char_fix in blast)
  then have l: "py_lower s = s"
    by (simp only: py_lower_def)
  have f: "filter (\<lambda>c. is_az c \<or> py_isspace c) s = s"
    using keep by (simp only: filter_id_conv)
  have sp: "\<forall>c\<in>set s. py_isspace c \<longrightarrow> c = CHR '' ''"
  proof (intro ballI impI)
    fix c assume "c \<in> set s" and w: "py_isspace c"
    with ch have "tidy_char c" by blast
    with w az_not_space show "c = CHR '' ''"
      unfolding tidy_char_def by blast
  qed
  have w: "sub_ws False s = s"
    using sub_ws_fix[OF sp nr] by simp
  have "clean_ingredient s = py_strip (sub_ws False (filter (\<lambda>c. is_az c \<or> py_isspace c) (py_lower s)))"
    by (simp only: clean_ingredient_def Let_def)
  also have "\<dots> = py_strip s"
    by (simp only: l f w)
  also have "\<dots> = s"
    by (rule strip_fix[OF ends])
  finally show ?thesis .
qed

lemma clean_example: "clean_ingredient ''  Egg-Plant 2  (Large) '' = ''eggplant large''"
  by code_simp

text \<open>
  C8: the text normalizer is idempotent: cleaning a cleaned ingredient changes nothing,
  for every string.
\<close>

theorem clean_ingredient_idempotent:
  "clean_ingredient (clean_ingredient x) = clean_ingredient x"
  by (rule clean_fix) (rule clean_normal_form)

theorem clean_ingredient_idempotent_witness:
  "clean_ingredient (clean_ingredient ''  Egg-Plant 2  (Large) '') = ''eggplant large''"
  using clean_ingredient_idempotent [of "''  Egg-Plant 2  (Large) ''"]
  by (simp only: clean_example)

section \<open>Filters, selection and composition\<close>

lemma set_head: "set (head n xs) \<subseteq> set xs"
  by (auto simp: head_def dest: in_set_takeD)

lemma length_head:
  "length (head n xs) = (if 0 \<le> n then min (nat n) (length xs) else length xs - nat (- n))"
  by (simp add: head_def min.commute)

lemma set_count_filter: "set (count_filter m scored) \<subseteq> set scored"
  by (auto simp: count_filter_def)

lemma filter_rows_subset: "filter_rows m v scored = Frame acc \<Longrightarrow> set acc \<subseteq> set scored"
  using set_count_filter[of m scored]
  by (auto simp: filter_rows_def veg_filter_def Let_def split: if_splits)

lemma filter_rows_count:
  "filter_rows m v scored = Frame acc \<Longrightarrow> (r, s) \<in> set acc \<Longrightarrow> int (length (ingredients r)) \<le> m"
  by (auto simp: filter_rows_def veg_filter_def count_filter_def Let_def split: if_splits)

lemma filter_rows_Frame:
  "\<not> v \<or> count_filter m scored \<noteq> [] \<Longrightarrow> \<exists>acc. filter_rows m v scored = Frame acc"
  by (auto simp: filter_rows_def veg_filter_def Let_def)

lemma smart_suggest_Inr:
  assumes "snd (smart_suggest B q c top_n v m) = Inr results"
  shows "\<exists>acc. filter_rows m v (zip (rows (df c)) (query_scores B c q)) = Frame acc
           \<and> length (query_scores B c q) = length (rows (df c))
           \<and> results = map (compose B (map clean_ingredient q)) (head top_n (sort_values B acc))"
  using assms
  by (auto simp: smart_suggest_def Let_def split: if_splits frame.splits)

lemma smart_suggest_returns:
  assumes "length (query_scores B c q) = length (rows (df c))"
      and "filter_rows m v (zip (rows (df c)) (query_scores B c q)) = Frame acc"
  shows "snd (smart_suggest B q c top_n v m)
           = Inr (map (compose B (map clean_ingredient q)) (head top_n (sort_values B acc)))"
  using assms by (simp add: smart_suggest_def Let_def)

lemma compose_Matched:
  "Matched (compose B uc rs) = filter (\<lambda>i. i \<in> set (map clean_ingredient (ingredients (fst rs)))) uc"
  by (simp add: compose_def Let_def)

lemma compose_Unmatched:
  "Unmatched (compose B uc rs) = filter (\<lambda>i. i \<notin> set uc) (map clean_ingredient (ingredients (fst rs)))"
  unfolding compose_def Let_def
  by (simp, rule filter_cong) auto

lemma compose_Name:
  "Name (compose B uc rs) = title B (cuisine (fst rs)) @ '' Dish #'' @ str_int (recipe_id (fst rs))"
  by (simp add: compose_def Let_def)

lemma compose_Score: "Score (compose B uc rs) = round3 B (snd rs)"
  by (simp add: compose_def Let_def)

lemma list_all2_map_same: "(\<And>p. p \<in> set ps \<Longrightarrow> P (f p) p) \<Longrightarrow> list_all2 P (map f ps) ps"
  by (simp add: list_all2_map1 list_all2_same)

lemma mset_insert_desc: "mset (insert_desc x ys) = add_mset x (mset ys)"
  by (induction ys) auto

lemma mset_sort_desc: "mset (sort_desc xs) = mset xs"
  unfolding sort_desc_def by (induction xs) (auto simp: mset_insert_desc)

lemma fixture_perm: "\<forall>xs. mset (sort_values fixture xs) = mset xs"
  by (simp add: fixture_def mset_sort_desc)

lemma load_pantry: "load_data fixture pantry = Inr pantry_corpus"
  by code_simp

lemma load_trio: "load_data fixture trio = Inr trio_corpus"
  by code_simp

lemma count_filter_nonempty:
  assumes "length sims = length rs" and "r \<in> set rs" and "int (length (ingredients r)) \<le> m"
  shows "count_filter m (zip rs sims) \<noteq> []"
proof -
  from assms(1,2) obtain s where "(r, s) \<in> set (zip rs sims)"
    by (metis in_set_impl_in_set_zip1)
  with assms(3) have "(r, s) \<in> set (count_filter m (zip rs sims))"
    by (simp add: count_filter_def)
  then show ?thesis by auto
qed

lemma smart_suggest_total:
  assumes len: "length (query_scores B c q) = length (rows (df c))"
      and ok: "\<not> v \<or> (\<exists>r\<in>set (rows (df c)). int (length (ingredients r)) \<le> m)"
  shows "\<exists>acc. filter_rows m v (zip (rows (df c)) (query_scores B c q)) = Frame acc
           \<and> snd (smart_suggest B q c top_n v m)
               = Inr (map (compose B (map clean_ingredient q)) (head top_n (sort_values B acc)))"
proof -
  have "\<not> v \<or> count_filter m (zip (rows (df c)) (query_scores B c q)) \<noteq> []"
    using ok count_filter_nonempty[OF len] by blast
  from filter_rows_Frame[OF this] obtain acc where
    fr: "filter_rows m v (zip (rows (df c)) (query_scores B c q)) = Frame acc" by blast
  from smart_suggest_returns[OF len fr] fr show ?thesis by blast
qed

section \<open>The vegetarian filter\<close>

text \<open>
  C1: with the vegetarian switch on, a recipe should be rejected exactly when one of its
  normalized ingredients contains a non-veg term, so a raw ingredient \<open>Egg\<close> should reject
  its recipe. The code tests the raw ingredient strings (line 67 passes the column as it
  is to \<open>is_veg_recipe\<close>), although the recipe's ingredients are normalized wherever else
  they are read (lines 75 and 95): the recipe with \<open>Egg\<close> is classified vegetarian, while
  its normalized ingredients are not, and the handler shows it.
\<close>

theorem capitalised_egg_passes_veg_filter:
  "is_veg_recipe [''Egg'', ''butter''] non_veg_keywords
   \<and> \<not> is_veg_recipe (map clean_ingredient [''Egg'', ''butter'']) non_veg_keywords
   \<and> suggest_recipes fixture [(7, ''french'', [''Egg'', ''butter''])] ''butter, egg'' ''Yes'' 10
       = Inr (Recipes [\<lparr>Name = ''French Dish #7'', Cuisine = ''French'',
                        Matched = [''butter'', ''egg''], Unmatched = [], Score = 1\<rparr>])"
  by code_simp

text \<open>
  C10: a recipe without ingredients is classified vegetarian for every keyword list,
  passes the ingredient-count filter for every non-negative threshold, and is therefore
  among the rows that the two filters of \<open>smart_suggest\<close> retain.
\<close>

theorem empty_recipe_passes_filters:
  assumes "ingredients r = []" and "0 \<le> max_ings" and "(r, s) \<in> set scored"
  shows "is_veg_recipe (ingredients r) keywords
     \<and> int (length (ingredients r)) \<le> max_ings
     \<and> (\<exists>acc. filter_rows max_ings is_veg scored = Frame acc \<and> (r, s) \<in> set acc)"
proof -
  have v: "is_veg_recipe (ingredients r) kw" for kw
    using assms(1) by (simp add: is_veg_recipe_def)
  have c: "(r, s) \<in> set (count_filter max_ings scored)"
    using assms by (simp add: count_filter_def)
  then have ne: "count_filter max_ings scored \<noteq> []" by auto
  show ?thesis
    using v c ne assms by (auto simp: filter_rows_def veg_filter_def Let_def)
qed

theorem empty_recipe_passes_filters_witness:
  "is_veg_recipe [] non_veg_keywords
   \<and> (\<exists>acc. filter_rows 0 True
         [(\<lparr>recipe_id = 2, cuisine = ''greek'', ingredients = [], ingredient_text = []\<rparr>, 1)]
           = Frame acc
         \<and> (\<lparr>recipe_id = 2, cuisine = ''greek'', ingredients = [], ingredient_text = []\<rparr>, 1)
             \<in> set acc)"
  using empty_recipe_passes_filters[of
      "\<lparr>recipe_id = 2, cuisine = ''greek'', ingredients = [], ingredient_text = []\<rparr>" 0 1
      "[(\<lparr>recipe_id = 2, cuisine = ''greek'', ingredients = [], ingredient_text = []\<rparr>, 1)]"
      non_veg_keywords True]
  by simp

section \<open>Matched and unmatched ingredients\<close>

text \<open>
  C2 as stated fails: \<open>Matched\<close> is the user's normalized list restricted to the recipe,
  so it follows the user's order, not the recipe's. For the query flour, egg, milk and
  the recipe milk, egg, flour the code returns flour, egg, milk where the recipe's order
  is milk, egg, flour.
\<close>

theorem matched_order_counterexample:
  "snd (smart_suggest fixture [''flour'', ''egg'', ''milk''] pantry_corpus 5 False 10)
     = Inr [\<lparr>Name = ''Italian Dish #1'', Cuisine = ''Italian'',
             Matched = [''flour'', ''egg'', ''milk''], Unmatched = [], Score = 1\<rparr>]
   \<and> matched_in_recipe_order (map clean_ingredient [''flour'', ''egg'', ''milk''])
         (map clean_ingredient [''milk'', ''egg'', ''flour'']) = [''milk'', ''egg'', ''flour'']"
  by code_simp

text \<open>
  C2 as the code has it: every returned result belongs to a row of the corpus; its
  \<open>Matched\<close> list is the user's normalized list filtered to the recipe's normalized
  ingredients (the user's order and multiplicities), its \<open>Unmatched\<close> list is the recipe's
  normalized list without the user's ingredients (the recipe's order); as sets, \<open>Matched\<close>
  is the specification's matched set, and the two lists are disjoint and cover the
  recipe's normalized ingredients. The library sort is only assumed to return a
  permutation of its input.
\<close>

theorem matched_unmatched_partition:
  assumes ret: "snd (smart_suggest B user_ingredients c top_n is_veg max_ings) = Inr results"
      and perm: "\<forall>xs. mset (sort_values B xs) = mset xs"
  shows "\<exists>acc. filter_rows max_ings is_veg
                 (zip (rows (df c)) (query_scores B c user_ingredients)) = Frame acc
          \<and> list_all2 (\<lambda>res p.
                p \<in> set acc \<and> fst p \<in> set (rows (df c))
              \<and> Name res = title B (cuisine (fst p)) @ '' Dish #'' @ str_int (recipe_id (fst p))
              \<and> Matched res = filter (\<lambda>i. i \<in> set (map clean_ingredient (ingredients (fst p))))
                                 (map clean_ingredient user_ingredients)
              \<and> Unmatched res = filter (\<lambda>i. i \<notin> set (map clean_ingredient user_ingredients))
                                   (map clean_ingredient (ingredients (fst p)))
              \<and> set (Matched res) = set (matched_in_recipe_order
                     (map clean_ingredient user_ingredients)
                     (map clean_ingredient (ingredients (fst p))))
              \<and> set (Matched res) \<union> set (Unmatched res)
                   = set (map clean_ingredient (ingredients (fst p)))
              \<and> set (Matched res) \<inter> set (Unmatched res) = {})
              results (head top_n (sort_values B acc))"
proof -
  let ?uc = "map clean_ingredient user_ingredients"
  let ?scored = "zip (rows (df c)) (query_scores B c user_ingredients)"
  from smart_suggest_Inr[OF ret] obtain acc where
    fr: "filter_rows max_ings is_veg ?scored = Frame acc" and
    rs: "results = map (compose B ?uc) (head top_n (sort_values B acc))"
    by blast
  have sa: "set (sort_values B acc) = set acc"
    using perm by (metis mset_eq_setD)
  let ?P = "\<lambda>res p.
                p \<in> set acc \<and> fst p \<in> set (rows (df c))
              \<and> Name res = title B (cuisine (fst p)) @ '' Dish #'' @ str_int (recipe_id (fst p))
              \<and> Matched res = filter (\<lambda>i. i \<in> set (map clean_ingredient (ingredients (fst p)))) ?uc
              \<and> Unmatched res = filter (\<lambda>i. i \<notin> set ?uc)
                                   (map clean_ingredient (ingredients (fst p)))
              \<and> set (Matched res) = set (matched_in_recipe_order ?uc
                     (map clean_ingredient (ingredients (fst p))))
              \<and> set (Matched res) \<union> set (Unmatched res)
                   = set (map clean_ingredient (ingredients (fst p)))
              \<and> set (Matched res) \<inter> set (Unmatched res) = {}"
  have "?P (compose B ?uc p) p" if p: "p \<in> set (head top_n (sort_values B acc))" for p
  proof -
    from p set_head[of top_n "sort_values B acc"] sa have pa: "p \<in> set acc" by blast
    with filter_rows_subset[OF fr] have "(fst p, snd p) \<in> set ?scored" by auto
    then have r: "fst p \<in> set (rows (df c))"
      by (rule set_zip_leftD)
    have m: "Matched (compose B ?uc p)
               = filter (\<lambda>i. i \<in> set (map clean_ingredient (ingredients (fst p)))) ?uc"
      by (rule compose_Matched)
    have u: "Unmatched (compose B ?uc p)
               = filter (\<lambda>i. i \<notin> set ?uc) (map clean_ingredient (ingredients (fst p)))"
      by (rule compose_Unmatched)
    have s1: "set (Matched (compose B ?uc p))
                = set (matched_in_recipe_order ?uc (map clean_ingredient (ingredients (fst p))))"
      unfolding m matched_in_recipe_order_def by auto
    have s2: "set (Matched (compose B ?uc p)) \<union> set (Unmatched (compose B ?uc p))
                = set (map clean_ingredient (ingredients (fst p)))"
      unfolding m u by auto
    have s3: "set (Matched (compose B ?uc p)) \<inter> set (Unmatched (compose B ?uc p)) = {}"
      unfolding m u by auto
    from pa r compose_Name[of B ?uc p] m u s1 s2 s3 show ?thesis by blast
  qed
  then have "list_all2 ?P (map (compose B ?uc) (head top_n (sort_values B acc)))
               (head top_n (sort_values B acc))"
    by (rule list_all2_map_same)
  with fr rs show ?thesis by blast
qed

theorem matched_unmatched_partition_witness:
  "snd (smart_suggest fixture [''milk'', ''rice''] trio_corpus 5 False 10)
     = Inr [\<lparr>Name = ''Thai Dish #1'', Cuisine = ''Thai'',
             Matched = [''rice''], Unmatched = [], Score = 1\<rparr>,
            \<lparr>Name = ''Greek Dish #2'', Cuisine = ''Greek'',
             Matched = [], Unmatched = [], Score = 1\<rparr>,
            \<lparr>Name = ''Irish Dish #3'', Cuisine = ''Irish'',
             Matched = [''milk''], Unmatched = [''oats''], Score = 1\<rparr>]
   \<and> set [''rice''] \<union> set [] = set (map clean_ingredient [''rice''])
   \<and> set [''milk''] \<union> set [''oats''] = set (map clean_ingredient [''oats'', ''milk''])
   \<and> set [''milk''] \<inter> set [''oats''] = ({} :: string set)"
proof -
  let ?q = "[''milk'', ''rice'']"
  let ?p1 = "(\<lparr>recipe_id = 1, cuisine = ''thai'', ingredients = [''rice''],
                 ingredient_text = ''rice''\<rparr>, 1 :: real)"
  let ?p2 = "(\<lparr>recipe_id = 2, cuisine = ''greek'', ingredients = [],
                 ingredient_text = []\<rparr>, 1 :: real)"
  let ?p3 = "(\<lparr>recipe_id = 3, cuisine = ''irish'', ingredients = [''oats'', ''milk''],
                 ingredient_text = ''oats milk''\<rparr>, 1 :: real)"
  let ?r1 = "\<lparr>Name = ''Thai Dish #1'', Cuisine = ''Thai'',
             Matched = [''rice''], Unmatched = [], Score = 1\<rparr>"
  let ?r2 = "\<lparr>Name = ''Greek Dish #2'', Cuisine = ''Greek'',
             Matched = [], Unmatched = [], Score = 1\<rparr>"
  let ?r3 = "\<lparr>Name = ''Irish Dish #3'', Cuisine = ''Irish'',
             Matched = [''milk''], Unmatched = [''oats''], Score = 1\<rparr>"
  have ret: "snd (smart_suggest fixture ?q trio_corpus 5 False 10) = Inr [?r1, ?r2, ?r3]"
    by code_simp
  have fr: "filter_rows 10 False (zip (rows (df trio_corpus)) (query_scores fixture trio_corpus ?q))
              = Frame [?p1, ?p2, ?p3]"
    by code_simp
  have top: "head 5 (sort_values fixture [?p1, ?p2, ?p3]) = [?p1, ?p2, ?p3]"
    by code_simp
  from matched_unmatched_partition[OF ret fixture_perm]
  obtain acc where
    a: "filter_rows 10 False (zip (rows (df trio_corpus)) (query_scores fixture trio_corpus ?q))
          = Frame acc" and
    l: "list_all2 (\<lambda>res p.
                p \<in> set acc \<and> fst p \<in> set (rows (df trio_corpus))
              \<and> Name res = title fixture (cuisine (fst p)) @ '' Dish #''
                              @ str_int (recipe_id (fst p))
              \<and> Matched res = filter (\<lambda>i. i \<in> set (map clean_ingredient (ingredients (fst p))))
                                 (map clean_ingredient ?q)
              \<and> Unmatched res = filter (\<lambda>i. i \<notin> set (map clean_ingredient ?q))
                                   (map clean_ingredient (ingredients (fst p)))
              \<and> set (Matched res) = set (matched_in_recipe_order
                     (map clean_ingredient ?q)
                     (map clean_ingredient (ingredients (fst p))))
              \<and> set (Matched res) \<union> set (Unmatched res)
                   = set (map clean_ingredient (ingredients (fst p)))
              \<and> set (Matched res) \<inter> set (Unmatched res) = {})
              [?r1, ?r2, ?r3] (head 5 (sort_values fixture acc))"
    by blast
  from a fr have acc: "acc = [?p1, ?p2, ?p3]"
    by (simp only: frame.inject)
  from l have "list_all2 (\<lambda>res p.
            set (Matched res) \<union> set (Unmatched res)
                   = set (map clean_ingredient (ingredients (fst p)))
          \<and> set (Matched res) \<inter> set (Unmatched res) = {})
          [?r1, ?r2, ?r3] (head 5 (sort_values fixture acc))"
    by (rule list_all2_mono) blast
  then have "list_all2 (\<lambda>res p.
            set (Matched res) \<union> set (Unmatched res)
                   = set (map clean_ingredient (ingredients (fst p)))
          \<and> set (Matched res) \<inter> set (Unmatched res) = {})
          [?r1, ?r2, ?r3] [?p1, ?p2, ?p3]"
    unfolding acc top .
  then have "set [''rice''] \<union> set [] = set (map clean_ingredient [''rice''])
   \<and> set [''milk''] \<union> set [''oats''] = set (map clean_ingredient [''oats'', ''milk''])
   \<and> set [''milk''] \<inter> set [''oats''] = ({} :: string set)"
    by (simp del: list.map map_eq_conv set_simps)
  with ret show ?thesis by (rule conjI)
qed

section \<open>Non-positive limits\<close>

text \<open>
  C5 as stated fails: \<open>head\<close> with a negative count drops rows from the end instead of
  returning none, so \<open>top_n = -1\<close> on three accepted recipes returns two of them.
\<close>

theorem negative_top_n_counterexample:
  "snd (smart_suggest fixture [''123''] trio_corpus (- 1) False 10)
     = Inr [\<lparr>Name = ''Thai Dish #1'', Cuisine = ''Thai'',
             Matched = [], Unmatched = [''rice''], Score = 0\<rparr>,
            \<lparr>Name = ''Greek Dish #2'', Cuisine = ''Greek'',
             Matched = [], Unmatched = [], Score = 0\<rparr>]"
  by code_simp

text \<open>
  C5 as the code has it, for a score vector as long as the corpus and a sort that
  permutes its input: when the vegetarian switch is off or some recipe passes the
  ingredient-count filter, the call returns a result list whose length is
  \<open>min top_n accepted\<close> for \<open>top_n \<ge> 0\<close> and \<open>accepted - |top_n|\<close> for a negative \<open>top_n\<close>.
  So \<open>top_n = 0\<close> and a negative \<open>max_ings\<close> give the empty list, and \<open>max_ings = 0\<close>
  accepts only recipes without ingredients.
\<close>

theorem nonpositive_limits:
  assumes len: "length (query_scores B c q) = length (rows (df c))"
      and perm: "\<forall>xs. mset (sort_values B xs) = mset xs"
      and ok: "\<not> is_veg \<or> (\<exists>r\<in>set (rows (df c)). int (length (ingredients r)) \<le> max_ings)"
  shows "\<exists>results acc.
           snd (smart_suggest B q c top_n is_veg max_ings) = Inr results
         \<and> filter_rows max_ings is_veg (zip (rows (df c)) (query_scores B c q)) = Frame acc
         \<and> length results = (if 0 \<le> top_n then min (nat top_n) (length acc)
                              else length acc - nat (- top_n))
         \<and> (top_n = 0 \<longrightarrow> results = [])
         \<and> (max_ings < 0 \<longrightarrow> results = [])
         \<and> (max_ings = 0 \<longrightarrow> (\<forall>(r, s)\<in>set acc. ingredients r = []))"
proof -
  let ?scored = "zip (rows (df c)) (query_scores B c q)"
  have "\<not> is_veg \<or> count_filter max_ings ?scored \<noteq> []"
    using ok count_filter_nonempty[OF len] by blast
  from filter_rows_Frame[OF this] obtain acc where
    fr: "filter_rows max_ings is_veg ?scored = Frame acc" by blast
  define results where
    "results = map (compose B (map clean_ingredient q)) (head top_n (sort_values B acc))"
  have ret: "snd (smart_suggest B q c top_n is_veg max_ings) = Inr results"
    unfolding results_def by (rule smart_suggest_returns[OF len fr])
  have "length (sort_values B acc) = length acc"
    using perm by (metis mset_eq_length)
  then have n: "length results = (if 0 \<le> top_n then min (nat top_n) (length acc)
                                  else length acc - nat (- top_n))"
    by (simp add: results_def length_head)
  have cnt: "\<forall>(r, s)\<in>set acc. int (length (ingredients r)) \<le> max_ings"
    using filter_rows_count[OF fr] by blast
  have neg: "max_ings < 0 \<longrightarrow> acc = []"
  proof
    assume m: "max_ings < 0"
    show "acc = []"
    proof (cases acc)
      case Nil
      then show ?thesis .
    next
      case (Cons p ps)
      then have "(fst p, snd p) \<in> set acc" by simp
      from filter_rows_count[OF fr this] m show ?thesis by simp
    qed
  qed
  have z: "max_ings = 0 \<longrightarrow> (\<forall>(r, s)\<in>set acc. ingredients r = [])"
    using cnt by auto
  have t0: "top_n = 0 \<longrightarrow> results = []"
    using n by auto
  have m0: "max_ings < 0 \<longrightarrow> results = []"
  proof
    assume "max_ings < 0"
    with neg have "acc = []" by blast
    with n have "length results = 0" by (simp split: if_splits)
    then show "results = []" by simp
  qed
  from ret fr n t0 m0 z show ?thesis by blast
qed

theorem nonpositive_limits_witness:
  "snd (smart_suggest fixture [''milk''] trio_corpus 0 False 10) = Inr []
   \<and> snd (smart_suggest fixture [''milk''] trio_corpus 5 False (- 1)) = Inr []
   \<and> (\<exists>results. snd (smart_suggest fixture [''milk''] trio_corpus 5 True 0)
                    = Inr results \<and> length results = 1)
   \<and> (\<exists>results. snd (smart_suggest fixture [''milk''] trio_corpus (- 1) False 10)
                    = Inr results \<and> length results = 2)"
proof -
  let ?c = "trio_corpus"
  let ?q = "[''milk'']"
  have len: "length (query_scores fixture ?c ?q) = length (rows (df ?c))"
    by code_simp
  have off: "\<not> False \<or> (\<exists>r\<in>set (rows (df ?c)). int (length (ingredients r)) \<le> m)" for m
    by simp
  have some: "\<not> True \<or> (\<exists>r\<in>set (rows (df ?c)). int (length (ingredients r)) \<le> 0)"
    by code_simp
  have a: "snd (smart_suggest fixture ?q ?c 0 False 10) = Inr []"
    using nonpositive_limits[where top_n = 0 and is_veg = False and max_ings = 10, OF len fixture_perm off] by auto
  have b: "snd (smart_suggest fixture ?q ?c 5 False (- 1)) = Inr []"
    using nonpositive_limits[where top_n = 5 and is_veg = False and max_ings = "- 1", OF len fixture_perm off] by auto
  have f0: "filter_rows 0 True (zip (rows (df ?c)) (query_scores fixture ?c ?q))
     = Frame [(\<lparr>recipe_id = 2, cuisine = ''greek'', ingredients = [], ingredient_text = []\<rparr>, 1)]"
    by code_simp
  have c: "\<exists>results. snd (smart_suggest fixture ?q ?c 5 True 0) = Inr results \<and> length results = 1"
    using nonpositive_limits[where top_n = 5 and is_veg = True and max_ings = 0, OF len fixture_perm some] unfolding f0 by auto
  have f10: "filter_rows 10 False (zip (rows (df ?c)) (query_scores fixture ?c ?q))
     = Frame [(\<lparr>recipe_id = 1, cuisine = ''thai'', ingredients = [''rice''],
                 ingredient_text = ''rice''\<rparr>, 1),
              (\<lparr>recipe_id = 2, cuisine = ''greek'', ingredients = [], ingredient_text = []\<rparr>, 1),
              (\<lparr>recipe_id = 3, cuisine = ''irish'', ingredients = [''oats'', ''milk''],
                 ingredient_text = ''oats milk''\<rparr>, 1)]"
    by code_simp
  have d: "\<exists>results. snd (smart_suggest fixture ?q ?c (- 1) False 10) = Inr results
             \<and> length results = 2"
    using nonpositive_limits[where top_n = "- 1" and is_veg = False and max_ings = 10, OF len fixture_perm off] unfolding f10 by auto
  from a b c d show ?thesis by blast
qed

section \<open>What a call changes\<close>

text \<open>
  C9 as stated fails: line 63 assigns the \<open>score\<close> column of the dataframe it was given,
  so the dataframe after the call differs from the one before.
\<close>

theorem score_column_counterexample:
  "score (df pantry_corpus) = None
   \<and> score (df (fst (smart_suggest fixture [''123''] pantry_corpus 5 False 10)))
       = Some [0]"
  by code_simp

text \<open>
  C9 as the code has it: a call leaves the TF-IDF matrix, the vectorizer and the rows of
  the dataframe as they were, and sets the \<open>score\<close> column to the query's similarity
  scores (when their number differs from the number of rows the assignment raises and
  the column stays as it was).
\<close>

theorem smart_suggest_frame:
  "tfidf_matrix (fst (smart_suggest B q c top_n is_veg max_ings)) = tfidf_matrix c
   \<and> vectorizer (fst (smart_suggest B q c top_n is_veg max_ings)) = vectorizer c
   \<and> rows (df (fst (smart_suggest B q c top_n is_veg max_ings))) = rows (df c)
   \<and> score (df (fst (smart_suggest B q c top_n is_veg max_ings)))
       = (if length (query_scores B c q) = length (rows (df c))
          then Some (query_scores B c q) else score (df c))"
  by (simp add: smart_suggest_def Let_def split: frame.splits)

theorem smart_suggest_frame_witness:
  "rows (df (fst (smart_suggest fixture [''123''] pantry_corpus 5 True 10)))
     = rows (df pantry_corpus)
   \<and> score (df (fst (smart_suggest fixture [''123''] pantry_corpus 5 True 10)))
     = Some [0]"
proof -
  have qs: "query_scores fixture pantry_corpus [''123''] = [0]"
    by code_simp
  have len: "length (rows (df pantry_corpus)) = 1"
    by code_simp
  show ?thesis
    using smart_suggest_frame[of fixture "[''123'']" pantry_corpus 5 True 10]
    by (simp add: qs len)
qed

section \<open>The empty query\<close>

text \<open>
  C4 as stated fails: the only guard is the handler's test that the comma-separated
  input has a non-blank entry. The letter-free entry \<open>123\<close> normalizes to the empty string
  and passes the guard, and \<open>smart_suggest\<close> has no guard of its own, not even for the
  empty list: both calls score the blank query and return the recipe with score 0.
\<close>

theorem letter_free_query_counterexample:
  "clean_ingredient ''123'' = []
   \<and> suggest_recipes fixture pantry ''123'' ''No'' 10
       = Inr (Recipes [\<lparr>Name = ''Italian Dish #1'', Cuisine = ''Italian'', Matched = [],
                        Unmatched = [''milk'', ''egg'', ''flour''], Score = 0\<rparr>])
   \<and> snd (smart_suggest fixture [] pantry_corpus 5 False 10)
       = Inr [\<lparr>Name = ''Italian Dish #1'', Cuisine = ''Italian'', Matched = [],
               Unmatched = [''milk'', ''egg'', ''flour''], Score = 0\<rparr>]"
  by code_simp

text \<open>
  C4 as the code has it: the handler first loads the corpus, and an error of the load is
  the handler's outcome. After a successful load it reports the missing input exactly
  when every comma-separated entry is blank after \<open>strip\<close>. Every other input, the
  letter-free ones included, reaches \<open>smart_suggest\<close> with its stripped non-blank entries
  and is scored: for a score vector as long as the corpus, a sort that permutes its input,
  and the vegetarian switch off or some recipe passing the ingredient-count filter, the
  handler shows the first five of the sorted accepted recipes (or the no-match warning
  when none is accepted), each with the rounded score the query obtained on its row.
\<close>

theorem empty_query_guard:
  "((suggest_recipes B data user_input choice max_ings = Inr Error_no_ingredient)
      = ((\<exists>c. load_data B data = Inr c)
         \<and> (\<forall>p\<in>set (py_split CHR '','' user_input). py_strip p = [])))
   \<and> (load_data B data = Inr c
      \<and> q = map py_strip (filter (\<lambda>i. py_strip i \<noteq> []) (py_split CHR '','' user_input))
      \<and> (\<exists>p\<in>set (py_split CHR '','' user_input). py_strip p \<noteq> [])
      \<and> length (query_scores B c q) = length (rows (df c))
      \<and> (\<forall>xs. mset (sort_values B xs) = mset xs)
      \<and> (choice \<noteq> ''Yes'' \<or> (\<exists>r\<in>set (rows (df c)). int (length (ingredients r)) \<le> max_ings))
      \<longrightarrow> (\<exists>results acc.
             suggest_recipes B data user_input choice max_ings
               = Inr (if results \<noteq> [] then Recipes results else Warning_no_match)
           \<and> filter_rows max_ings (choice = ''Yes'') (zip (rows (df c)) (query_scores B c q))
               = Frame acc
           \<and> length results = min 5 (length acc)
           \<and> list_all2 (\<lambda>res p. p \<in> set (zip (rows (df c)) (query_scores B c q))
                                \<and> Score res = round3 B (snd p))
                 results (head 5 (sort_values B acc))))"
proof (intro conjI impI)
  show "(suggest_recipes B data user_input choice max_ings = Inr Error_no_ingredient)
      = ((\<exists>c. load_data B data = Inr c)
         \<and> (\<forall>p\<in>set (py_split CHR '','' user_input). py_strip p = []))"
    by (auto simp: suggest_recipes_def Let_def filter_empty_conv split: sum.splits)
next
  assume h: "load_data B data = Inr c
      \<and> q = map py_strip (filter (\<lambda>i. py_strip i \<noteq> []) (py_split CHR '','' user_input))
      \<and> (\<exists>p\<in>set (py_split CHR '','' user_input). py_strip p \<noteq> [])
      \<and> length (query_scores B c q) = length (rows (df c))
      \<and> (\<forall>xs. mset (sort_values B xs) = mset xs)
      \<and> (choice \<noteq> ''Yes'' \<or> (\<exists>r\<in>set (rows (df c)). int (length (ingredients r)) \<le> max_ings))"
  then have load: "load_data B data = Inr c"
    and q: "q = map py_strip (filter (\<lambda>i. py_strip i \<noteq> []) (py_split CHR '','' user_input))"
    and ne: "\<exists>p\<in>set (py_split CHR '','' user_input). py_strip p \<noteq> []"
    and len: "length (query_scores B c q) = length (rows (df c))"
    and perm: "\<forall>xs. mset (sort_values B xs) = mset xs"
    and ok: "\<not> (choice = ''Yes'') \<or> (\<exists>r\<in>set (rows (df c)). int (length (ingredients r)) \<le> max_ings)"
    by blast+
  let ?scored = "zip (rows (df c)) (query_scores B c q)"
  from smart_suggest_total[OF len ok] obtain acc where
    fr: "filter_rows max_ings (choice = ''Yes'') ?scored = Frame acc" and
    ret: "snd (smart_suggest B q c 5 (choice = ''Yes'') max_ings)
            = Inr (map (compose B (map clean_ingredient q)) (head 5 (sort_values B acc)))"
    by blast
  define results where
    "results = map (compose B (map clean_ingredient q)) (head 5 (sort_values B acc))"
  have qne: "q \<noteq> []"
    using ne unfolding q by (auto simp: filter_empty_conv)
  have out: "suggest_recipes B data user_input choice max_ings
               = Inr (if results \<noteq> [] then Recipes results else Warning_no_match)"
    using qne ret unfolding suggest_recipes_def load results_def q[symmetric] Let_def
    by simp
  have sa: "set (sort_values B acc) = set acc"
    using perm by (metis mset_eq_setD)
  have "length (sort_values B acc) = length acc"
    using perm by (metis mset_eq_length)
  then have n: "length results = min 5 (length acc)"
    by (simp add: results_def length_head)
  have "p \<in> set ?scored \<and> Score (compose B (map clean_ingredient q) p) = round3 B (snd p)"
    if "p \<in> set (head 5 (sort_values B acc))" for p
    using that set_head[of 5 "sort_values B acc"] sa filter_rows_subset[OF fr] compose_Score
    by blast
  then have l: "list_all2 (\<lambda>res p. p \<in> set ?scored \<and> Score res = round3 B (snd p))
                 results (head 5 (sort_values B acc))"
    unfolding results_def by (rule list_all2_map_same)
  from out fr n l show "\<exists>results acc.
             suggest_recipes B data user_input choice max_ings
               = Inr (if results \<noteq> [] then Recipes results else Warning_no_match)
           \<and> filter_rows max_ings (choice = ''Yes'') ?scored = Frame acc
           \<and> length results = min 5 (length acc)
           \<and> list_all2 (\<lambda>res p. p \<in> set ?scored \<and> Score res = round3 B (snd p))
                 results (head 5 (sort_values B acc))"
    by blast
qed

theorem empty_query_guard_witness:
  "suggest_recipes fixture pantry '' ,  '' ''Yes'' 10 = Inr Error_no_ingredient
   \<and> (\<exists>results. suggest_recipes fixture pantry ''123'' ''No'' 10 = Inr (Recipes results)
                  \<and> length results = 1)"
proof -
  have blank: "\<forall>p\<in>set (py_split CHR '','' '' ,  ''). py_strip p = []"
    by code_simp
  have a: "suggest_recipes fixture pantry '' ,  '' ''Yes'' 10 = Inr Error_no_ingredient"
    using empty_query_guard[of fixture pantry "'' ,  ''" "''Yes''" 10] load_pantry blank
    by blast
  have q: "[''123''] = map py_strip (filter (\<lambda>i. py_strip i \<noteq> []) (py_split CHR '','' ''123''))"
    by code_simp
  have ne: "\<exists>p\<in>set (py_split CHR '','' ''123''). py_strip p \<noteq> []"
    by code_simp
  have len: "length (query_scores fixture pantry_corpus [''123'']) = length (rows (df pantry_corpus))"
    by code_simp
  have ok: "''No'' \<noteq> ''Yes'' \<or> (\<exists>r\<in>set (rows (df pantry_corpus)). int (length (ingredients r)) \<le> 10)"
    by simp
  have fr: "filter_rows 10 (''No'' = ''Yes'')
              (zip (rows (df pantry_corpus)) (query_scores fixture pantry_corpus [''123'']))
            = Frame [(\<lparr>recipe_id = 1, cuisine = ''italian'',
                        ingredients = [''milk'', ''egg'', ''flour''],
                        ingredient_text = ''milk egg flour''\<rparr>, 0)]"
    by code_simp
  from empty_query_guard[of fixture pantry "''123''" "''No''" 10 pantry_corpus "[''123'']"]
    load_pantry q ne len fixture_perm ok
  obtain results acc where
    out: "suggest_recipes fixture pantry ''123'' ''No'' 10
            = Inr (if results \<noteq> [] then Recipes results else Warning_no_match)" and
    fa: "filter_rows 10 (''No'' = ''Yes'')
              (zip (rows (df pantry_corpus)) (query_scores fixture pantry_corpus [''123'']))
            = Frame acc" and
    n: "length results = min 5 (length acc)"
    by blast
  from fa fr have "length acc = 1" by simp
  with n have n1: "length results = 1" by simp
  then have "results \<noteq> []" by auto
  with out n1 have "\<exists>results. suggest_recipes fixture pantry ''123'' ''No'' 10 = Inr (Recipes results)
                  \<and> length results = 1"
    by auto
  with a show ?thesis by (rule conjI)
qed

section \<open>Similarity scores\<close>

lemma dot_self_nonneg: "0 \<le> dot v v"
  by (induction v) auto

lemma dot_self_zero: "dot v v = 0 \<longleftrightarrow> all_zero v"
proof (induction v)
  case Nil
  then show ?case by (simp add: all_zero_def)
next
  case (Cons a v)
  have "a * a + dot v v = 0 \<longleftrightarrow> a = 0 \<and> dot v v = 0"
    using dot_self_nonneg[of v] by (auto simp: add_nonneg_eq_0_iff)
  with Cons show ?case by (simp add: all_zero_def)
qed

lemma cauchy_step:
  fixes a b S U V :: real
  assumes ih: "S\<^sup>2 \<le> U * V" and U: "0 \<le> U" and V: "0 \<le> V"
  shows "(a * b + S)\<^sup>2 \<le> (a * a + U) * (b * b + V)"
proof -
  have "(2 * a * b * S)\<^sup>2 = 4 * (a * b)\<^sup>2 * S\<^sup>2"
    by (simp add: power_mult_distrib)
  also have "\<dots> \<le> 4 * (a * b)\<^sup>2 * (U * V)"
    using ih by (intro mult_left_mono) auto
  also have "\<dots> \<le> (a * a * V + b * b * U)\<^sup>2"
  proof -
    have "(a * a * V + b * b * U)\<^sup>2 - 4 * (a * b)\<^sup>2 * (U * V) = (a * a * V - b * b * U)\<^sup>2"
      by (simp add: power2_eq_square algebra_simps)
    moreover have "0 \<le> (a * a * V - b * b * U)\<^sup>2" by simp
    ultimately show ?thesis by linarith
  qed
  finally have sq: "(2 * a * b * S)\<^sup>2 \<le> (a * a * V + b * b * U)\<^sup>2" .
  have "0 \<le> (a * a) * V" and "0 \<le> (b * b) * U"
    using U V by (simp_all add: mult_nonneg_nonneg)
  then have "0 \<le> a * a * V + b * b * U"
    by simp
  with sq have "2 * a * b * S \<le> a * a * V + b * b * U"
    by (rule power2_le_imp_le)
  moreover have "(a * b + S)\<^sup>2 = (a * b)\<^sup>2 + 2 * a * b * S + S\<^sup>2"
    by (simp add: power2_eq_square algebra_simps)
  moreover have "(a * a + U) * (b * b + V) = (a * b)\<^sup>2 + (a * a * V + b * b * U) + U * V"
    by (simp add: power2_eq_square algebra_simps)
  ultimately show ?thesis using ih by linarith
qed

lemma cauchy_schwarz: "(dot u v)\<^sup>2 \<le> dot u u * dot v v"
proof (induction u v rule: dot.induct)
  case (1 a u b v)
  from cauchy_step[OF "1.IH" dot_self_nonneg dot_self_nonneg] show ?case by simp
qed simp_all

lemma dot_le_norms: "dot u v \<le> euclid_norm u * euclid_norm v"
proof -
  have "dot u v \<le> sqrt (dot u u * dot v v)"
    by (rule real_le_rsqrt) (rule cauchy_schwarz)
  then show ?thesis
    by (simp add: euclid_norm_def real_sqrt_mult)
qed

lemma norm_pos: "\<not> all_zero v \<Longrightarrow> 0 < euclid_norm v"
  using dot_self_nonneg[of v] dot_self_zero[of v] by (simp add: euclid_norm_def less_le)

lemma cosine_le_1: "cosine u v \<le> 1"
proof (cases "all_zero u \<or> all_zero v")
  case True
  then show ?thesis by (simp add: cosine_def)
next
  case False
  then have "0 < euclid_norm u * euclid_norm v"
    by (simp add: norm_pos)
  with dot_le_norms[of u v] False show ?thesis
    by (simp add: cosine_def)
qed

lemma dot_nonneg: "\<forall>a\<in>set u. 0 \<le> a \<Longrightarrow> \<forall>b\<in>set v. 0 \<le> b \<Longrightarrow> 0 \<le> dot u v"
  by (induction u v rule: dot.induct) auto

lemma cosine_nonneg:
  "\<forall>a\<in>set u. 0 \<le> a \<Longrightarrow> \<forall>b\<in>set v. 0 \<le> b \<Longrightarrow> 0 \<le> cosine u v"
  using dot_nonneg[of u v] dot_self_nonneg
  by (simp add: cosine_def euclid_norm_def)

lemma cosine_self: "cosine v v = (if all_zero v then 0 else 1)"
proof (cases "all_zero v")
  case True
  then show ?thesis by (simp add: cosine_def)
next
  case False
  then have "dot v v \<noteq> 0" by (simp add: dot_self_zero)
  with False dot_self_nonneg[of v] show ?thesis
    by (simp add: cosine_def euclid_norm_def)
qed

lemma cosine_zero_left: "all_zero u \<Longrightarrow> cosine u v = 0"
  by (simp add: cosine_def)

lemma idf_nonneg: "\<forall>w\<in>set (idf (tfidf_fit docs)). 0 \<le> w"
proof -
  have "0 \<le> ln ((1 + real (length docs))
                 / (1 + real (length (filter (\<lambda>d. t \<in> set (tokens d)) docs)))) + 1" for t
  proof -
    have "length (filter (\<lambda>d. t \<in> set (tokens d)) docs) \<le> length docs"
      by (rule length_filter_le)
    then have "1 \<le> (1 + real (length docs))
                 / (1 + real (length (filter (\<lambda>d. t \<in> set (tokens d)) docs)))"
      by (simp add: le_divide_eq)
    then have "0 \<le> ln ((1 + real (length docs))
                 / (1 + real (length (filter (\<lambda>d. t \<in> set (tokens d)) docs))))"
      by (rule ln_ge_zero)
    then show ?thesis by simp
  qed
  then show ?thesis
    by (auto simp: tfidf_fit_def Let_def)
qed

lemma l2_normalize_nonneg: "\<forall>a\<in>set v. 0 \<le> a \<Longrightarrow> \<forall>a\<in>set (l2_normalize v). 0 \<le> a"
  using dot_self_nonneg[of v] by (auto simp: l2_normalize_def euclid_norm_def)

lemma tfidf_transform_nonneg:
  assumes "\<forall>w\<in>set (idf vs). 0 \<le> w"
  shows "\<forall>a\<in>set (tfidf_transform vs d). 0 \<le> a"
  unfolding tfidf_transform_def
proof (rule l2_normalize_nonneg, rule ballI)
  fix a
  assume "a \<in> set (map (\<lambda>(t, w). real (count_list (tokens d) t) * w)
                        (zip (vocabulary vs) (idf vs)))"
  then obtain t w where tw: "(t, w) \<in> set (zip (vocabulary vs) (idf vs))"
    and a: "a = real (count_list (tokens d) t) * w"
    by auto
  from tw have "w \<in> set (idf vs)" by (rule set_zip_rightD)
  with assms have "0 \<le> w" by blast
  with a show "0 \<le> a" by simp
qed

lemma tfidf_transform_blank:
  assumes "tokens d = []"
  shows "all_zero (tfidf_transform vs d)"
proof -
  have "all_zero (map (\<lambda>(t, w). real (count_list (tokens d) t) * w)
                      (zip (vocabulary vs) (idf vs)))"
    using assms by (auto simp: all_zero_def list_all_iff)
  then show ?thesis
    by (simp add: tfidf_transform_def l2_normalize_def)
qed

lemma query_scores_vector:
  "query_scores B c q = cosine_similarity B (query_vector B c q) (tfidf_matrix c)"
  by (simp add: query_scores_def query_vector_def Let_def)

lemma load_data_indexed:
  assumes fit: "fit_transform B = tfidf_fit_transform" and ne: "data \<noteq> []"
  shows "\<exists>c. load_data B data = Inr c
           \<and> length (rows (df c)) = length data
           \<and> (\<forall>i<length data. ingredient_text (rows (df c) ! i)
                  = py_join '' '' (map clean_ingredient (snd (snd (data ! i)))))
           \<and> vectorizer c = tfidf_fit (map ingredient_text (rows (df c)))
           \<and> tfidf_matrix c
               = map (tfidf_transform (vectorizer c)) (map ingredient_text (rows (df c)))"
  using ne
  by (simp add: load_data_def fit tfidf_fit_transform_def Let_def split_beta)

lemma tfidf_backend_fields:
  "fit_transform tfidf_backend = tfidf_fit_transform"
  "transform tfidf_backend = tfidf_transform"
  "cosine_similarity tfidf_backend = rank"
  by (simp_all add: tfidf_backend_def)

text \<open>  C6, over the vector space of the specification: for every non-empty corpus and every
  query the load returns, and the ranker gives exactly one score per corpus row, in
  corpus order: the \<open>i\<close>-th score is the cosine similarity of the query vector and the
  \<open>i\<close>-th row of the matrix, which is the vector of the \<open>i\<close>-th recipe's document. Every
  score lies between 0 and 1, and it is 0 when the query vector or the row is all-zero.\<close>

theorem ranker_scores:
  assumes fit: "fit_transform B = tfidf_fit_transform"
      and tr: "transform B = tfidf_transform"
      and cs: "cosine_similarity B = rank"
      and ne: "data \<noteq> []"
  shows "\<exists>c. load_data B data = Inr c
           \<and> length (rows (df c)) = length data
           \<and> length (query_scores B c q) = length (rows (df c))
           \<and> (\<forall>i<length (rows (df c)).
                  ingredient_text (rows (df c) ! i)
                    = py_join '' '' (map clean_ingredient (snd (snd (data ! i))))
                \<and> tfidf_matrix c ! i
                    = tfidf_transform (vectorizer c) (ingredient_text (rows (df c) ! i))
                \<and> query_scores B c q ! i = cosine (query_vector B c q) (tfidf_matrix c ! i)
                \<and> 0 \<le> query_scores B c q ! i
                \<and> query_scores B c q ! i \<le> 1
                \<and> (all_zero (query_vector B c q) \<or> all_zero (tfidf_matrix c ! i)
                     \<longrightarrow> query_scores B c q ! i = 0))"
proof -
  from load_data_indexed[OF fit ne] obtain c where
    load: "load_data B data = Inr c" and
    n: "length (rows (df c)) = length data" and
    itx: "\<forall>i<length data. ingredient_text (rows (df c) ! i)
                  = py_join '' '' (map clean_ingredient (snd (snd (data ! i))))" and
    vz: "vectorizer c = tfidf_fit (map ingredient_text (rows (df c)))" and
    mx: "tfidf_matrix c = map (tfidf_transform (vectorizer c)) (map ingredient_text (rows (df c)))"
    by blast
  have qs: "query_scores B c q = map (cosine (query_vector B c q)) (tfidf_matrix c)"
    by (simp add: query_scores_vector cs rank_def)
  have lm: "length (tfidf_matrix c) = length (rows (df c))"
    by (subst mx) simp
  have len: "length (query_scores B c q) = length (rows (df c))"
    by (simp add: qs lm)
  have idf0: "\<forall>w\<in>set (idf (vectorizer c)). 0 \<le> w"
    by (subst vz) (rule idf_nonneg)
  have qn: "\<forall>a\<in>set (query_vector B c q). 0 \<le> a"
    unfolding query_vector_def tr by (rule tfidf_transform_nonneg[OF idf0])
  have row: "tfidf_matrix c ! i = tfidf_transform (vectorizer c) (ingredient_text (rows (df c) ! i))"
    if "i < length (rows (df c))" for i
    using that by (subst mx) simp
  have each: "ingredient_text (rows (df c) ! i)
                    = py_join '' '' (map clean_ingredient (snd (snd (data ! i))))
                \<and> tfidf_matrix c ! i
                    = tfidf_transform (vectorizer c) (ingredient_text (rows (df c) ! i))
                \<and> query_scores B c q ! i = cosine (query_vector B c q) (tfidf_matrix c ! i)
                \<and> 0 \<le> query_scores B c q ! i
                \<and> query_scores B c q ! i \<le> 1
                \<and> (all_zero (query_vector B c q) \<or> all_zero (tfidf_matrix c ! i)
                     \<longrightarrow> query_scores B c q ! i = 0)"
    if i: "i < length (rows (df c))" for i
  proof -
    from i lm have im: "i < length (tfidf_matrix c)" by simp
    have s: "query_scores B c q ! i = cosine (query_vector B c q) (tfidf_matrix c ! i)"
      using im by (simp add: qs)
    have rn: "\<forall>a\<in>set (tfidf_matrix c ! i). 0 \<le> a"
      unfolding row[OF i] by (rule tfidf_transform_nonneg[OF idf0])
    have lo: "0 \<le> query_scores B c q ! i"
      unfolding s by (rule cosine_nonneg[OF qn rn])
    have hi: "query_scores B c q ! i \<le> 1"
      unfolding s by (rule cosine_le_1)
    have z: "all_zero (query_vector B c q) \<or> all_zero (tfidf_matrix c ! i)
               \<longrightarrow> query_scores B c q ! i = 0"
      unfolding s by (simp add: cosine_def)
    from i n itx have t: "ingredient_text (rows (df c) ! i)
                    = py_join '' '' (map clean_ingredient (snd (snd (data ! i))))"
      by simp
    from t row[OF i] s lo hi z show ?thesis by blast
  qed
  from load n len each show ?thesis by blast
qed

theorem ranker_scores_witness:
  "\<exists>c. load_data tfidf_backend trio = Inr c
       \<and> length (query_scores tfidf_backend c [''milk'']) = 3
       \<and> 0 \<le> query_scores tfidf_backend c [''milk''] ! 2
       \<and> query_scores tfidf_backend c [''milk''] ! 2 \<le> 1
       \<and> query_scores tfidf_backend c [''milk''] ! 1 = 0"
proof -
  let ?B = tfidf_backend
  let ?q = "[''milk'']"
  have ne: "trio \<noteq> []"
    by (simp add: trio_def)
  have lt: "length trio = 3"
    by (simp add: trio_def)
  from ranker_scores[OF tfidf_backend_fields ne, of ?q] obtain c where
    load: "load_data ?B trio = Inr c" and
    n: "length (rows (df c)) = length trio" and
    len: "length (query_scores ?B c ?q) = length (rows (df c))" and
    each: "\<forall>i<length (rows (df c)).
                  ingredient_text (rows (df c) ! i)
                    = py_join '' '' (map clean_ingredient (snd (snd (trio ! i))))
                \<and> tfidf_matrix c ! i
                    = tfidf_transform (vectorizer c) (ingredient_text (rows (df c) ! i))
                \<and> query_scores ?B c ?q ! i = cosine (query_vector ?B c ?q) (tfidf_matrix c ! i)
                \<and> 0 \<le> query_scores ?B c ?q ! i
                \<and> query_scores ?B c ?q ! i \<le> 1
                \<and> (all_zero (query_vector ?B c ?q) \<or> all_zero (tfidf_matrix c ! i)
                     \<longrightarrow> query_scores ?B c ?q ! i = 0)"
    by blast
  from n lt have n3: "length (rows (df c)) = 3" by simp
  with len have l3: "length (query_scores ?B c ?q) = 3" by simp
  have i2: "2 < length (rows (df c))" and i1: "1 < length (rows (df c))"
    using n3 by simp_all
  from each[rule_format, OF i2]
  have b2: "0 \<le> query_scores ?B c ?q ! 2 \<and> query_scores ?B c ?q ! 2 \<le> 1"
    by blast
  have blank: "py_join '' '' (map clean_ingredient (snd (snd (trio ! 1)))) = []"
    by code_simp
  have tk: "tokens [] = []"
    by code_simp
  from each[rule_format, OF i1]
  have t1: "ingredient_text (rows (df c) ! 1)
              = py_join '' '' (map clean_ingredient (snd (snd (trio ! 1))))"
    and m1: "tfidf_matrix c ! 1
              = tfidf_transform (vectorizer c) (ingredient_text (rows (df c) ! 1))"
    and z: "all_zero (query_vector ?B c ?q) \<or> all_zero (tfidf_matrix c ! 1)
               \<longrightarrow> query_scores ?B c ?q ! 1 = 0"
    by blast+
  have "tfidf_matrix c ! 1 = tfidf_transform (vectorizer c) []"
    by (simp only: m1 t1 blank)
  then have "all_zero (tfidf_matrix c ! 1)"
    by (simp only: tfidf_transform_blank[OF tk])
  with z have z1: "query_scores ?B c ?q ! 1 = 0" by blast
  from load l3 b2 z1 show ?thesis by blast
qed

text \<open>  C7, over the vector space of the specification: when the normalized text of the query
  equals the document of the \<open>i\<close>-th recipe, no row scores higher than row \<open>i\<close>. The
  recipes need not be distinct for this.\<close>

theorem identical_recipe_scores_highest:
  assumes fit: "fit_transform B = tfidf_fit_transform"
      and tr: "transform B = tfidf_transform"
      and cs: "cosine_similarity B = rank"
      and i: "i < length data"
      and same: "py_join '' '' (map clean_ingredient q)
                   = py_join '' '' (map clean_ingredient (snd (snd (data ! i))))"
  shows "\<exists>c. load_data B data = Inr c
           \<and> length (query_scores B c q) = length data
           \<and> ingredient_text (rows (df c) ! i) = py_join '' '' (map clean_ingredient q)
           \<and> (\<forall>j<length data. query_scores B c q ! j \<le> query_scores B c q ! i)"
proof -
  from i have ne: "data \<noteq> []" by auto
  from load_data_indexed[OF fit ne] obtain c where
    load: "load_data B data = Inr c" and
    n: "length (rows (df c)) = length data" and
    itx: "\<forall>i<length data. ingredient_text (rows (df c) ! i)
                  = py_join '' '' (map clean_ingredient (snd (snd (data ! i))))" and
    mx: "tfidf_matrix c = map (tfidf_transform (vectorizer c)) (map ingredient_text (rows (df c)))"
    by blast
  let ?qv = "query_vector B c q"
  have qs: "query_scores B c q = map (cosine ?qv) (tfidf_matrix c)"
    by (simp add: query_scores_vector cs rank_def)
  have lm: "length (tfidf_matrix c) = length data"
    by (subst mx) (simp add: n)
  have len: "length (query_scores B c q) = length data"
    by (simp add: qs lm)
  from i itx same have t: "ingredient_text (rows (df c) ! i) = py_join '' '' (map clean_ingredient q)"
    by simp
  have "tfidf_matrix c ! i = tfidf_transform (vectorizer c) (ingredient_text (rows (df c) ! i))"
    using i n by (subst mx) simp
  then have ri: "tfidf_matrix c ! i = ?qv"
    by (simp add: t query_vector_def tr)
  have si: "query_scores B c q ! i = (if all_zero ?qv then 0 else 1)"
    using i lm by (simp add: qs ri cosine_self)
  have "query_scores B c q ! j \<le> query_scores B c q ! i" if j: "j < length data" for j
  proof -
    have sj: "query_scores B c q ! j = cosine ?qv (tfidf_matrix c ! j)"
      using j lm by (simp add: qs)
    show ?thesis
    proof (cases "all_zero ?qv")
      case True
      then show ?thesis by (simp add: sj si cosine_zero_left)
    next
      case False
      then show ?thesis using cosine_le_1[of ?qv "tfidf_matrix c ! j"] by (simp add: sj si)
    qed
  qed
  with load len t show ?thesis by blast
qed

theorem identical_recipe_scores_highest_witness:
  "\<exists>c. load_data tfidf_backend trio = Inr c
       \<and> query_scores tfidf_backend c [''Oats'', ''MILK!''] ! 0
           \<le> query_scores tfidf_backend c [''Oats'', ''MILK!''] ! 2
       \<and> query_scores tfidf_backend c [''Oats'', ''MILK!''] ! 1
           \<le> query_scores tfidf_backend c [''Oats'', ''MILK!''] ! 2"
proof -
  let ?B = tfidf_backend
  let ?q = "[''Oats'', ''MILK!'']"
  have i: "2 < length trio"
    by (simp add: trio_def)
  have same: "py_join '' '' (map clean_ingredient ?q)
                = py_join '' '' (map clean_ingredient (snd (snd (trio ! 2))))"
    by code_simp
  from identical_recipe_scores_highest[OF tfidf_backend_fields i same] obtain c where
    load: "load_data ?B trio = Inr c" and
    top: "\<forall>j<length trio. query_scores ?B c ?q ! j \<le> query_scores ?B c ?q ! 2"
    by blast
  have "0 < length trio" and "1 < length trio"
    by (simp_all add: trio_def)
  with top have "query_scores ?B c ?q ! 0 \<le> query_scores ?B c ?q ! 2"
    and "query_scores ?B c ?q ! 1 \<le> query_scores ?B c ?q ! 2"
    by blast+
  with load show ?thesis by blast
qed

end
